theory Spec2Isabelle
  imports Main
begin

section \<open>Flight model (src/models/Flight.js)\<close>

text \<open>
  Timestamps are JavaScript \<^verbatim>\<open>Date\<close> values, modelled by their millisecond count
  (\<^verbatim>\<open>getTime()\<close>) as an \<^typ>\<open>int\<close>; a date field that is not set (\<^verbatim>\<open>undefined\<close>) is
  \<^term>\<open>None\<close>. A \<^verbatim>\<open>Date\<close> object is always truthy, so \<^verbatim>\<open>if (d)\<close> is \<open>d \<noteq> None\<close>.
  \<^verbatim>\<open>new Date()\<close> and \<^verbatim>\<open>Date.now()\<close> read the clock; the models take that reading as the
  argument \<open>now\<close>.
\<close>

datatype flight_status =
  Scheduled | Delayed | Boarding | Departed | InAir | Arrived | Cancelled | Diverted

fun status_name :: "flight_status \<Rightarrow> string" where
  "status_name Scheduled = ''Scheduled''"
| "status_name Delayed = ''Delayed''"
| "status_name Boarding = ''Boarding''"
| "status_name Departed = ''Departed''"
| "status_name InAir = ''In-Air''"
| "status_name Arrived = ''Arrived''"
| "status_name Cancelled = ''Cancelled''"
| "status_name Diverted = ''Diverted''"

record status_history_entry =
  sh_status :: flight_status
  sh_timestamp :: int
  sh_reason :: string
  sh_updatedBy :: string
  sh_metadata :: "(string \<times> string) list"

record flight =
  flightNumber :: string
  origin_airport :: string
  origin_terminal :: "string option"
  origin_gate :: "string option"
  destination_airport :: string
  destination_terminal :: "string option"
  destination_gate :: "string option"
  departure_scheduled :: "int option"
  departure_estimated :: "int option"
  departure_actual :: "int option"
  arrival_scheduled :: "int option"
  arrival_estimated :: "int option"
  arrival_actual :: "int option"
  status_current :: flight_status
  status_history :: "status_history_entry list"
  delay_minutes :: int
  delay_reason :: "string option"
  delay_description :: "string option"
  lastUpdated :: int

text \<open>
  \<^verbatim>\<open>calculateDelay\<close>: the three branches of the source in their order. Each of the first
  two needs both of its dates; the third compares the clock with the scheduled departure
  (a comparison with \<^verbatim>\<open>undefined\<close> is false in JavaScript). \<^verbatim>\<open>Math.floor(x / 60000)\<close> on
  an integer difference is \<open>div\<close>, which rounds towards minus infinity on \<^typ>\<open>int\<close>.
\<close>

definition calculateDelay :: "int \<Rightarrow> flight \<Rightarrow> flight" where
  "calculateDelay currentTime f =
     (let delayMinutes =
        (if departure_actual f \<noteq> None \<and> departure_scheduled f \<noteq> None
         then (the (departure_actual f) - the (departure_scheduled f)) div (1000 * 60)
         else if departure_estimated f \<noteq> None \<and> departure_scheduled f \<noteq> None
         then (the (departure_estimated f) - the (departure_scheduled f)) div (1000 * 60)
         else if (case departure_scheduled f of None \<Rightarrow> False | Some s \<Rightarrow> currentTime > s)
                 \<and> departure_actual f = None
         then (currentTime - the (departure_scheduled f)) div (1000 * 60)
         else 0)
      in f\<lparr>delay_minutes := max 0 delayMinutes\<rparr>)"

text \<open>
  Strings are ASCII text. A schema path declared with \<^verbatim>\<open>trim: true\<close> stores every string
  assigned to it through \<^verbatim>\<open>String.prototype.trim\<close>, which removes the white space at both
  ends: tab, line feed, vertical tab, form feed, carriage return and space.
\<close>

definition is_js_whitespace :: "char \<Rightarrow> bool" where
  "is_js_whitespace c = (c \<in> set [CHR 0x09, CHR 0x0A, CHR 0x0B, CHR 0x0C, CHR 0x0D, CHR 0x20])"

definition js_trim :: "string \<Rightarrow> string" where
  "js_trim s = rev (dropWhile is_js_whitespace (rev (dropWhile is_js_whitespace s)))"

text \<open>
  \<^verbatim>\<open>updateStatus\<close> of the model. The membership test against \<^verbatim>\<open>FLIGHT_STATUSES\<close> holds for
  every value of \<^typ>\<open>flight_status\<close>. The \<^verbatim>\<open>reason\<close> argument is not stored: the history
  entry's reason is the text built from the two statuses. \<^verbatim>\<open>StatusHistorySchema\<close> trims the
  entry's \<^verbatim>\<open>reason\<close> and \<^verbatim>\<open>updatedBy\<close>. The method ends in \<^verbatim>\<open>this.save()\<close>, modelled by
  \<open>flight_pre_save\<close> below.
\<close>

definition updateStatus ::
  "int \<Rightarrow> flight_status \<Rightarrow> string option \<Rightarrow> string \<Rightarrow> (string \<times> string) list \<Rightarrow> flight \<Rightarrow> flight" where
  "updateStatus now newStatus reason updatedBy metadata f =
     (let oldStatus = status_current f;
          f1 = f\<lparr>status_history := status_history f @
                  [\<lparr>sh_status = oldStatus, sh_timestamp = now,
                    sh_reason = js_trim (''Changed from '' @ status_name oldStatus @ '' to '' @
                                         status_name newStatus),
                    sh_updatedBy = js_trim updatedBy, sh_metadata = metadata\<rparr>]\<rparr>;
          f2 = f1\<lparr>status_current := newStatus, lastUpdated := now\<rparr>;
          f3 = (if newStatus = Departed \<and> departure_actual f2 = None
                then f2\<lparr>departure_actual := Some now\<rparr> else f2);
          f4 = (if newStatus = Arrived \<and> arrival_actual f3 = None
                then f3\<lparr>arrival_actual := Some now\<rparr> else f3)
      in calculateDelay now f4)"

text \<open>
  The pre-save hook of the flight schema, for a save that has not modified the scheduled
  times (as after \<^verbatim>\<open>updateStatus\<close>): it stamps \<^verbatim>\<open>lastUpdated\<close> and refuses a route whose
  two airports are equal.
\<close>

definition flight_pre_save :: "int \<Rightarrow> flight \<Rightarrow> string + flight" where
  "flight_pre_save now f =
     (let f1 = f\<lparr>lastUpdated := now\<rparr>
      in if origin_airport f1 = destination_airport f1
         then Inl ''Origin and destination airports cannot be the same''
         else Inr f1)"

section \<open>Flight service (src/services/FlightService.js)\<close>

fun statusTransitions :: "flight_status \<Rightarrow> flight_status list" where
  "statusTransitions Scheduled = [Delayed, Boarding, Cancelled]"
| "statusTransitions Delayed = [Boarding, Cancelled]"
| "statusTransitions Boarding = [Departed, Cancelled]"
| "statusTransitions Departed = [InAir, Diverted]"
| "statusTransitions InAir = [Arrived, Diverted]"
| "statusTransitions Arrived = []"
| "statusTransitions Cancelled = []"
| "statusTransitions Diverted = [Arrived]"

definition validateStatusTransition :: "flight_status \<Rightarrow> flight_status \<Rightarrow> bool" where
  "validateStatusTransition currentStatus newStatus =
     (let allowedTransitions = statusTransitions currentStatus
      in newStatus \<in> set allowedTransitions)"

text \<open>
  The errors \<^verbatim>\<open>updateFlightStatus\<close> can throw. \<^verbatim>\<open>FlightStatusError\<close> carries the current
  status, the requested status and \<^verbatim>\<open>details.allowedTransitions\<close>; an error that is not
  a \<^verbatim>\<open>FlightError\<close> is rethrown by the \<^verbatim>\<open>catch\<close> block as \<^verbatim>\<open>FlightDatabaseError\<close> with the
  original message.
\<close>

datatype flight_error =
  FlightNotFoundError string
| FlightStatusError flight_status flight_status "flight_status list"
| FlightDatabaseError string

text \<open>
  \<^verbatim>\<open>updateData\<close>. A key that is absent is \<^term>\<open>None\<close>; \<^verbatim>\<open>ud_status = None\<close> is an update
  that names no status. \<^verbatim>\<open>ud_gate_departure\<close> and \<^verbatim>\<open>ud_gate_arrival\<close> hold the pair
  (gate, terminal).
\<close>

record update_data =
  ud_status :: "flight_status option"
  ud_reason :: "string option"
  ud_metadata :: "(string \<times> string) list option"
  ud_departure_scheduled :: "int option"
  ud_departure_estimated :: "int option"
  ud_departure_actual :: "int option"
  ud_arrival_scheduled :: "int option"
  ud_arrival_estimated :: "int option"
  ud_arrival_actual :: "int option"
  ud_gate_departure :: "(string option \<times> string option) option"
  ud_gate_arrival :: "(string option \<times> string option) option"
  ud_delay_minutes :: "int option"
  ud_delay_reason :: "string option"
  ud_delay_description :: "string option"

definition truthy_string :: "string option \<Rightarrow> bool" where
  "truthy_string s = (case s of None \<Rightarrow> False | Some t \<Rightarrow> t \<noteq> [])"

definition set_if_given :: "'a option \<Rightarrow> 'a option \<Rightarrow> 'a option" where
  "set_if_given new old = (case new of None \<Rightarrow> old | Some v \<Rightarrow> Some v)"

text \<open>
  The field updates collected in \<^verbatim>\<open>updateFields\<close> and written by
  \<^verbatim>\<open>Flight.findByIdAndUpdate\<close>; \<open>has_update_fields\<close> is
  \<^verbatim>\<open>Object.keys(updateFields).length > 0\<close>. A key of \<^verbatim>\<open>updateData.gate.departure\<close> or
  \<^verbatim>\<open>updateData.gate.arrival\<close> that is absent puts \<^verbatim>\<open>undefined\<close> into \<^verbatim>\<open>updateFields\<close>: the
  key counts for \<open>has_update_fields\<close>, and the update leaves the stored value as it is.
  The update runs the setters of the schema, so the gate, the terminal and the delay
  description are stored trimmed; it does not run the validators.
\<close>

definition has_update_fields :: "update_data \<Rightarrow> bool" where
  "has_update_fields u =
     (ud_departure_scheduled u \<noteq> None \<or> ud_departure_estimated u \<noteq> None \<or>
      ud_departure_actual u \<noteq> None \<or> ud_arrival_scheduled u \<noteq> None \<or>
      ud_arrival_estimated u \<noteq> None \<or> ud_arrival_actual u \<noteq> None \<or>
      ud_gate_departure u \<noteq> None \<or> ud_gate_arrival u \<noteq> None \<or>
      ud_delay_minutes u \<noteq> None \<or> truthy_string (ud_delay_reason u) \<or>
      truthy_string (ud_delay_description u))"

definition apply_update_fields :: "int \<Rightarrow> update_data \<Rightarrow> flight \<Rightarrow> flight" where
  "apply_update_fields now u f =
     (let f1 = f\<lparr>departure_scheduled := set_if_given (ud_departure_scheduled u) (departure_scheduled f),
                 departure_estimated := set_if_given (ud_departure_estimated u) (departure_estimated f),
                 departure_actual := set_if_given (ud_departure_actual u) (departure_actual f),
                 arrival_scheduled := set_if_given (ud_arrival_scheduled u) (arrival_scheduled f),
                 arrival_estimated := set_if_given (ud_arrival_estimated u) (arrival_estimated f),
                 arrival_actual := set_if_given (ud_arrival_actual u) (arrival_actual f)\<rparr>;
          f2 = (case ud_gate_departure u of None \<Rightarrow> f1
                | Some (g, t) \<Rightarrow>
                    f1\<lparr>origin_gate := set_if_given (map_option js_trim g) (origin_gate f1),
                       origin_terminal := set_if_given (map_option js_trim t) (origin_terminal f1)\<rparr>);
          f3 = (case ud_gate_arrival u of None \<Rightarrow> f2
                | Some (g, t) \<Rightarrow>
                    f2\<lparr>destination_gate := set_if_given (map_option js_trim g) (destination_gate f2),
                       destination_terminal :=
                         set_if_given (map_option js_trim t) (destination_terminal f2)\<rparr>);
          f4 = (case ud_delay_minutes u of None \<Rightarrow> f3 | Some m \<Rightarrow> f3\<lparr>delay_minutes := m\<rparr>);
          f5 = (if truthy_string (ud_delay_reason u)
                then f4\<lparr>delay_reason := ud_delay_reason u\<rparr> else f4);
          f6 = (if truthy_string (ud_delay_description u)
                then f5\<lparr>delay_description := map_option js_trim (ud_delay_description u)\<rparr> else f5)
      in f6\<lparr>lastUpdated := now\<rparr>)"

text \<open>
  \<^verbatim>\<open>updateFlightStatus\<close>. The first argument \<open>found\<close> is what
  \<^verbatim>\<open>Flight.findOne({flightNumber, isActive: true})\<close> returns: the stored flight, or
  \<^term>\<open>None\<close>. The result is the value returned or the error thrown, paired with the stored
  flight afterwards. The transition is validated, and \<^verbatim>\<open>updateStatus\<close> called, only under
  the guard \<^verbatim>\<open>newStatus && newStatus !== oldStatus\<close>. A rejected \<^verbatim>\<open>save\<close> is rethrown by
  the \<^verbatim>\<open>catch\<close> block as \<^verbatim>\<open>FlightDatabaseError\<close>. The logging and the notification
  triggered after a status change (in a \<^verbatim>\<open>try\<close>/\<^verbatim>\<open>catch\<close> of its own, which only logs) do
  not touch the flight and are left out.
\<close>

definition updateFlightStatus ::
  "int \<Rightarrow> flight option \<Rightarrow> string \<Rightarrow> update_data \<Rightarrow> string \<Rightarrow> (flight_error + flight) \<times> flight option" where
  "updateFlightStatus now found flightNo updateData updatedBy =
     (case found of
        None \<Rightarrow> (Inl (FlightNotFoundError flightNo), found)
      | Some flight \<Rightarrow>
          (let oldStatus = status_current flight;
               newStatus = ud_status updateData;
               changing = (newStatus \<noteq> None \<and> newStatus \<noteq> Some oldStatus)
           in if changing \<and> \<not> validateStatusTransition oldStatus (the newStatus)
              then (Inl (FlightStatusError oldStatus (the newStatus) (statusTransitions oldStatus)), found)
              else
                (case (if changing
                       then flight_pre_save now
                              (updateStatus now (the newStatus) (ud_reason updateData) updatedBy
                                 (case ud_metadata updateData of None \<Rightarrow> [] | Some m \<Rightarrow> m) flight)
                       else Inr flight) of
                   Inl msg \<Rightarrow> (Inl (FlightDatabaseError msg), found)
                 | Inr saved \<Rightarrow>
                     (let updatedFlight =
                            (if has_update_fields updateData
                             then apply_update_fields now updateData saved else saved)
                      in (Inr updatedFlight, Some updatedFlight)))))"

text \<open>A flight used in the examples: AA123, JFK to LAX, scheduled 08:00, no other times set.\<close>

definition example_flight :: flight where
  "example_flight =
     \<lparr>flightNumber = ''AA123'',
      origin_airport = ''JFK'', origin_terminal = None, origin_gate = None,
      destination_airport = ''LAX'', destination_terminal = None, destination_gate = None,
      departure_scheduled = Some 28800000, departure_estimated = None, departure_actual = None,
      arrival_scheduled = Some 50400000, arrival_estimated = None, arrival_actual = None,
      status_current = Scheduled, status_history = [],
      delay_minutes = 0, delay_reason = None, delay_description = None,
      lastUpdated = 0\<rparr>"

definition example_update :: update_data where
  "example_update =
     \<lparr>ud_status = None, ud_reason = None, ud_metadata = None,
      ud_departure_scheduled = None, ud_departure_estimated = None, ud_departure_actual = None,
      ud_arrival_scheduled = None, ud_arrival_estimated = None, ud_arrival_actual = None,
      ud_gate_departure = None, ud_gate_arrival = None,
      ud_delay_minutes = None, ud_delay_reason = None, ud_delay_description = None\<rparr>"

section \<open>Subscription model (src/models/Subscription.js)\<close>

datatype subscription_status = pending | active | inactive | unsubscribed | expired

datatype notification_type =
  status_changes | delays | gate_changes | cancellations
| boarding_calls | departure_alerts | arrival_alerts | weather_alerts

datatype notification_method = email_method | sms_method | push_method

datatype delivery_status = sent | failed | bounced | delivered

record notification_record =
  nr_type :: notification_type
  nr_method :: notification_method
  nr_status :: delivery_status
  nr_messageId :: "string option"
  nr_error :: "string option"

record notification_preferences =
  status_changes_enabled :: bool
  delays_enabled :: bool
  gate_changes_enabled :: bool
  cancellations_enabled :: bool
  boarding_calls_enabled :: bool
  departure_alerts_enabled :: bool
  arrival_alerts_enabled :: bool
  weather_alerts_enabled :: bool

record notification_stats =
  totalSent :: int
  emailsSent :: int
  smsSent :: int
  pushSent :: int
  lastNotificationSent :: "int option"
  notificationHistory :: "notification_record list"

record verification_state =
  isVerified :: bool
  verificationToken :: "string option"
  verificationTokenExpires :: "int option"
  verifiedAt :: "int option"
  verificationAttempts :: int

record unsubscribe_state =
  unsubscribe_token :: "string option"
  isUnsubscribed :: bool
  unsubscribedAt :: "int option"
  unsubscribe_reason :: "string option"
  unsubscribe_feedback :: "string option"

record gdpr_compliance =
  consentDate :: "int option"
  dataRetentionDays :: "int option"

text \<open>
  The subscription document. \<open>isNew\<close> is Mongoose's flag of a document that has never been
  saved. \<^verbatim>\<open>verify\<close> and \<^verbatim>\<open>unsubscribeUser\<close> mutate the document and end in \<^verbatim>\<open>this.save()\<close>,
  modelled by \<open>save\<close> below; each model returns the error thrown (if any) and the document
  as it is in memory afterwards.
\<close>

record subscription =
  email :: string
  sub_flightNumber :: string
  flightDate :: int
  status :: subscription_status
  verification :: verification_state
  unsubscribe :: unsubscribe_state
  notificationPreferences :: notification_preferences
  notificationStats :: notification_stats
  gdprCompliance :: gdpr_compliance
  expiresAt :: "int option"
  isActive :: bool
  isNew :: bool

text \<open>
  The methods throw plain \<^verbatim>\<open>Error\<close> objects, told apart by their message. A save rejects
  with Mongoose's \<^verbatim>\<open>ValidationError\<close>, which names the invalid paths, or with the error of
  the database write.
\<close>

datatype js_error = Error string | ValidationError "string list" | WriteError string


text \<open>
  The pre-save hook. \<open>tok1\<close> and \<open>tok2\<close> are the two values \<^verbatim>\<open>crypto.randomBytes\<close> would
  give; \<open>modRetention\<close> and \<open>modConsent\<close> are
  \<^verbatim>\<open>isModified('gdprCompliance.dataRetentionDays')\<close> and
  \<^verbatim>\<open>isModified('gdprCompliance.consentDate')\<close>. A number is truthy when it is not 0.
\<close>

definition pre_save :: "int \<Rightarrow> string \<Rightarrow> string \<Rightarrow> bool \<Rightarrow> bool \<Rightarrow> subscription \<Rightarrow> subscription" where
  "pre_save now tok1 tok2 modRetention modConsent s =
     (let s1 = (if isNew s \<and> \<not> truthy_string (verificationToken (verification s))
                then s\<lparr>verification := (verification s)
                         \<lparr>verificationToken := Some tok1,
                          verificationTokenExpires := Some (now + 24 * 60 * 60 * 1000)\<rparr>\<rparr>
                else s);
          s2 = (if isNew s1 \<and> \<not> truthy_string (unsubscribe_token (unsubscribe s1))
                then s1\<lparr>unsubscribe := (unsubscribe s1)\<lparr>unsubscribe_token := Some tok2\<rparr>\<rparr>
                else s1);
          s3 = (if isNew s2 \<and> expiresAt s2 = None
                then s2\<lparr>expiresAt := Some (flightDate s2 + 7 * 24 * 60 * 60 * 1000)\<rparr>
                else s2)
      in if modRetention \<or> modConsent
         then (case (dataRetentionDays (gdprCompliance s3), consentDate (gdprCompliance s3)) of
                 (Some days, Some consent) \<Rightarrow>
                   if days \<noteq> 0
                   then (let gdprExpiry = consent + days * 24 * 60 * 60 * 1000
                         in if expiresAt s3 = None \<or> gdprExpiry < the (expiresAt s3)
                            then s3\<lparr>expiresAt := Some gdprExpiry\<rparr>
                            else s3)
                   else s3
               | _ \<Rightarrow> s3)
         else s3)"

text \<open>
  What one \<^verbatim>\<open>save\<close> call meets outside the document: the two values
  \<^verbatim>\<open>crypto.randomBytes\<close> would give, whether the retention days or the consent date count as
  modified, the paths that validation rejects other than those the calling method has just
  assigned (a never-saved document validates all its paths, a loaded one those modified
  before the call), and the error of the database write, if it fails.
\<close>

record save_env =
  fresh_verification_token :: string
  fresh_unsubscribe_token :: string
  retention_modified :: bool
  consent_modified :: bool
  other_invalid_paths :: "string list"
  write_error :: "string option"

text \<open>
  \<^verbatim>\<open>save\<close>. Validation comes first, as Mongoose's own first pre-save step: when a path is
  invalid the save rejects and neither the hook nor the write takes place. Then the schema's
  pre-save hook runs, then the write; a rejected write leaves the document with what the
  hook did. After a successful save the document is no longer new. \<open>invalid\<close> lists the
  invalid paths among those the calling method assigned.
\<close>

definition save :: "save_env \<Rightarrow> int \<Rightarrow> string list \<Rightarrow> subscription \<Rightarrow> (js_error + unit) \<times> subscription" where
  "save env now invalid s =
     (if invalid @ other_invalid_paths env \<noteq> []
      then (Inl (ValidationError (invalid @ other_invalid_paths env)), s)
      else
        (let s1 = pre_save now (fresh_verification_token env) (fresh_unsubscribe_token env)
                    (retention_modified env) (consent_modified env) s
         in case write_error env of
              Some msg \<Rightarrow> (Inl (WriteError msg), s1)
            | None \<Rightarrow> (Inr (), s1\<lparr>isNew := False\<rparr>)))"


definition unsubscribe_reasons :: "string list" where
  "unsubscribe_reasons =
     [''user_request'', ''bounce'', ''spam_complaint'', ''admin_action'', ''gdpr_request'',
      ''expired'']"

definition invalid_unsubscribe_paths :: "subscription \<Rightarrow> string list" where
  "invalid_unsubscribe_paths s =
     (case unsubscribe_reason (unsubscribe s) of
        None \<Rightarrow> []
      | Some r \<Rightarrow> if r \<in> set unsubscribe_reasons then [] else [''unsubscribe.reason''])
     @ (case unsubscribe_feedback (unsubscribe s) of
          None \<Rightarrow> []
        | Some f \<Rightarrow> if length f \<le> 500 then [] else [''unsubscribe.feedback''])"


text \<open>
  \<^verbatim>\<open>unsubscribeUser\<close>. The schema trims \<^verbatim>\<open>unsubscribe.reason\<close> and
  \<^verbatim>\<open>unsubscribe.feedback\<close> when they are assigned.
\<close>

definition unsubscribeUser ::
  "save_env \<Rightarrow> int \<Rightarrow> string option \<Rightarrow> string \<Rightarrow> string \<Rightarrow> subscription \<Rightarrow>
   (js_error + unit) \<times> subscription" where
  "unsubscribeUser env now token reason feedback s =
     (if isUnsubscribed (unsubscribe s)
      then (Inl (Error ''Already unsubscribed''), s)
      else if truthy_string token \<and> unsubscribe_token (unsubscribe s) \<noteq> token
      then (Inl (Error ''Invalid unsubscribe token''), s)
      else (let s1 = s\<lparr>unsubscribe := (unsubscribe s)
                        \<lparr>isUnsubscribed := True, unsubscribedAt := Some now,
                         unsubscribe_reason := Some (js_trim reason),
                         unsubscribe_feedback := Some (js_trim feedback)\<rparr>,
                     status := unsubscribed,
                     isActive := False\<rparr>
            in save env now (invalid_unsubscribe_paths s1) s1))"

text \<open>
  \<^verbatim>\<open>addNotification\<close>: the counters, the \<^verbatim>\<open>push\<close>, and the truncation
  \<^verbatim>\<open>slice(-50)\<close>, which keeps the last 50 elements of an array longer than 50.
\<close>

definition addNotification ::
  "int \<Rightarrow> notification_type \<Rightarrow> notification_method \<Rightarrow> delivery_status \<Rightarrow> string option \<Rightarrow>
   string option \<Rightarrow> subscription \<Rightarrow> subscription" where
  "addNotification now type method st messageId err s =
     (let n0 = notificationStats s;
          n1 = n0\<lparr>totalSent := totalSent n0 + 1, lastNotificationSent := Some now\<rparr>;
          n2 = (case method of
                  email_method \<Rightarrow> n1\<lparr>emailsSent := emailsSent n1 + 1\<rparr>
                | sms_method \<Rightarrow> n1\<lparr>smsSent := smsSent n1 + 1\<rparr>
                | push_method \<Rightarrow> n1\<lparr>pushSent := pushSent n1 + 1\<rparr>);
          n3 = n2\<lparr>notificationHistory := notificationHistory n2 @
                  [\<lparr>nr_type = type, nr_method = method, nr_status = st,
                    nr_messageId = messageId, nr_error = err\<rparr>]\<rparr>;
          n4 = (if length (notificationHistory n3) > 100
                then n3\<lparr>notificationHistory :=
                          drop (length (notificationHistory n3) - 50) (notificationHistory n3)\<rparr>
                else n3)
      in s\<lparr>notificationStats := n4\<rparr>)"

text \<open>
  A subscription used in the examples: verified state pending, token \<open>tok\<close>, default
  preferences of the schema, flight on day 20 (in milliseconds), expiry 7 days later.
\<close>

definition example_subscription :: subscription where
  "example_subscription =
     \<lparr>email = ''passenger@example.com'', sub_flightNumber = ''AA123'',
      flightDate = 1728000000, status = pending,
      verification = \<lparr>isVerified = False, verificationToken = Some ''tok'',
                      verificationTokenExpires = Some 86400000, verifiedAt = None,
                      verificationAttempts = 0\<rparr>,
      unsubscribe = \<lparr>unsubscribe_token = Some ''utok'', isUnsubscribed = False,
                     unsubscribedAt = None, unsubscribe_reason = None,
                     unsubscribe_feedback = None\<rparr>,
      notificationPreferences =
        \<lparr>status_changes_enabled = True, delays_enabled = True, gate_changes_enabled = True,
         cancellations_enabled = True, boarding_calls_enabled = False,
         departure_alerts_enabled = False, arrival_alerts_enabled = False,
         weather_alerts_enabled = False\<rparr>,
      notificationStats = \<lparr>totalSent = 0, emailsSent = 0, smsSent = 0, pushSent = 0,
                           lastNotificationSent = None, notificationHistory = []\<rparr>,
      gdprCompliance = \<lparr>consentDate = Some 0, dataRetentionDays = Some 365\<rparr>,
      expiresAt = Some 2332800000, isActive = True, isNew = False\<rparr>"

text \<open>
  A save that meets nothing wrong: no other invalid path, no pending change of the retention
  inputs, a write that succeeds. And the example subscription before its first save.
\<close>

definition example_save_env :: save_env where
  "example_save_env =
     \<lparr>fresh_verification_token = ''f00d'', fresh_unsubscribe_token = ''beef'',
      retention_modified = False, consent_modified = False,
      other_invalid_paths = [], write_error = None\<rparr>"


text \<open>The same subscription with a history of exactly 100 records.\<close>

definition full_history_subscription :: subscription where
  "full_history_subscription =
     example_subscription\<lparr>notificationStats := (notificationStats example_subscription)
        \<lparr>notificationHistory :=
           replicate 100 \<lparr>nr_type = delays, nr_method = sms_method, nr_status = delivered,
                          nr_messageId = None, nr_error = None\<rparr>\<rparr>\<rparr>"

section \<open>Notification service (src/services/NotificationService.js)\<close>

record service_config =
  retryAttempts :: int
  retryDelay :: int
  maxPerHour :: int
  maxPerDay :: int

text \<open>
  The rate-limit store maps a key to a count. The source builds the key as the text
  \<^verbatim>\<open>email:hour:N\<close> or \<^verbatim>\<open>email:day:N\<close>; the model keeps its three parts as a triple.
  The timers that \<^verbatim>\<open>updateRateLimit\<close> starts (deleting each key after its window) are not
  modelled.
\<close>

datatype rate_window = hour | day

type_synonym rate_key = "string \<times> rate_window \<times> int"

type_synonym rate_store = "rate_key \<Rightarrow> int option"

record service =
  config :: service_config
  rateLimitStore :: rate_store
  isEnabled :: bool

definition hourlyKey :: "string \<Rightarrow> int \<Rightarrow> rate_key" where
  "hourlyKey em now = (em, hour, now div (60 * 60 * 1000))"

definition dailyKey :: "string \<Rightarrow> int \<Rightarrow> rate_key" where
  "dailyKey em now = (em, day, now div (24 * 60 * 60 * 1000))"

definition get_count :: "rate_store \<Rightarrow> rate_key \<Rightarrow> int" where
  "get_count store k = (case store k of None \<Rightarrow> 0 | Some c \<Rightarrow> c)"

definition checkRateLimit :: "service \<Rightarrow> int \<Rightarrow> string \<Rightarrow> bool" where
  "checkRateLimit svc now em =
     (let hourCount = get_count (rateLimitStore svc) (hourlyKey em now);
          dayCount = get_count (rateLimitStore svc) (dailyKey em now)
      in if hourCount \<ge> maxPerHour (config svc) then False
         else if dayCount \<ge> maxPerDay (config svc) then False
         else True)"

definition updateRateLimit :: "service \<Rightarrow> int \<Rightarrow> string \<Rightarrow> service" where
  "updateRateLimit svc now em =
     (let hourlyCount = get_count (rateLimitStore svc) (hourlyKey em now);
          dailyCount = get_count (rateLimitStore svc) (dailyKey em now)
      in svc\<lparr>rateLimitStore :=
               ((rateLimitStore svc)(hourlyKey em now \<mapsto> hourlyCount + 1))
                 (dailyKey em now \<mapsto> dailyCount + 1)\<rparr>)"

definition resetRateLimit :: "service \<Rightarrow> int \<Rightarrow> string \<Rightarrow> service" where
  "resetRateLimit svc now em =
     svc\<lparr>rateLimitStore :=
           ((rateLimitStore svc)(hourlyKey em now := None))(dailyKey em now := None)\<rparr>"

definition shouldNotifyStatusChange :: "subscription \<Rightarrow> flight_status \<Rightarrow> flight_status \<Rightarrow> bool" where
  "shouldNotifyStatusChange sub oldStatus newStatus =
     (let p = notificationPreferences sub
      in if \<not> status_changes_enabled p then False
         else if oldStatus = newStatus then False
         else if newStatus = Boarding
         then boarding_calls_enabled p \<or> status_changes_enabled p
         else if newStatus = Delayed
         then delays_enabled p \<or> status_changes_enabled p
         else if newStatus = Cancelled
         then cancellations_enabled p \<or> status_changes_enabled p
         else status_changes_enabled p)"

text \<open>
  What the collaborators of one \<^verbatim>\<open>notifyStatusChange\<close> call do:
  \<^item> \<open>find_subscriptions\<close>: \<^verbatim>\<open>Subscription.findActiveByFlight\<close> rejects with a message
    (\<open>Inl\<close>) or resolves to the matching documents;
  \<^item> \<open>deliver\<close>: rendering the content and \<^verbatim>\<open>sendEmail\<close> for a subscription throw a
    message (\<open>Inl\<close>) or give the provider's message id;
  \<^item> \<open>save_error\<close>: the \<^verbatim>\<open>save\<close> that ends \<^verbatim>\<open>addNotification\<close> rejects with a message,
    or succeeds (\<^term>\<open>None\<close>).
\<close>

record dispatch_env =
  find_subscriptions :: "string + subscription list"
  deliver :: "subscription \<Rightarrow> string + string"
  save_error :: "subscription \<Rightarrow> string option"

datatype notification_result = NotificationSent string | NotificationNotSent string

text \<open>\<^verbatim>\<open>sendStatusChangeEmail\<close> catches every error and reports it in its result.\<close>

definition sendStatusChangeEmail :: "dispatch_env \<Rightarrow> subscription \<Rightarrow> notification_result" where
  "sendStatusChangeEmail env sub =
     (case deliver env sub of
        Inr messageId \<Rightarrow> NotificationSent messageId
      | Inl msg \<Rightarrow> NotificationNotSent msg)"

record detail =
  d_email :: string
  d_status :: string
  d_message :: "string option"
  d_messageId :: "string option"
  d_error :: "string option"

record batch_results =
  success :: bool
  notificationsSent :: int
  notificationsFailed :: int
  details :: "detail list"

text \<open>
  The four shapes of object that \<^verbatim>\<open>notifyStatusChange\<close> returns:
  \<^verbatim>\<open>{success: true, message: 'Service disabled'}\<close>,
  \<^verbatim>\<open>{success: true, notificationsSent: 0, message: 'No subscriptions found'}\<close>,
  the batch results, and, from the outer \<^verbatim>\<open>catch\<close>,
  \<^verbatim>\<open>{success: false, error: msg, notificationsSent: 0, notificationsFailed: 0}\<close>.
\<close>

datatype dispatch_result =
  ServiceDisabled
| NoSubscriptionsFound
| Batch batch_results
| DispatchFailed string

definition record_error :: "string \<Rightarrow> string \<Rightarrow> batch_results \<Rightarrow> batch_results" where
  "record_error em msg results =
     results\<lparr>notificationsFailed := notificationsFailed results + 1,
             details := details results @
               [\<lparr>d_email = em, d_status = ''error'', d_message = None,
                 d_messageId = None, d_error = Some msg\<rparr>]\<rparr>"

text \<open>The \<^verbatim>\<open>results\<close> object a batch starts from.\<close>

definition initial_results :: batch_results where
  "initial_results =
     \<lparr>success = True, notificationsSent = 0, notificationsFailed = 0, details = []\<rparr>"

text \<open>
  The body of the \<^verbatim>\<open>for\<close> loop for one subscription, with its \<^verbatim>\<open>try\<close>/\<^verbatim>\<open>catch\<close>: the only
  statement that can throw is \<^verbatim>\<open>addNotification\<close> (its \<^verbatim>\<open>save\<close>), after the counter of the
  branch has been incremented. The result is the batch results so far and the document as
  mutated. Nothing in the loop writes to the rate-limit store.
\<close>

definition process_subscription ::
  "service \<Rightarrow> dispatch_env \<Rightarrow> int \<Rightarrow> flight \<Rightarrow> flight_status \<Rightarrow> subscription \<Rightarrow> batch_results \<Rightarrow>
   batch_results \<times> subscription" where
  "process_subscription svc env now flight oldStatus sub results =
     (if \<not> shouldNotifyStatusChange sub oldStatus (status_current flight)
      then (results, sub)
      else if \<not> checkRateLimit svc now (email sub)
      then (results\<lparr>details := details results @
                      [\<lparr>d_email = email sub, d_status = ''rate_limited'',
                        d_message = Some ''Rate limit exceeded'',
                        d_messageId = None, d_error = None\<rparr>]\<rparr>, sub)
      else
        (case sendStatusChangeEmail env sub of
           NotificationSent messageId \<Rightarrow>
             (let r1 = results\<lparr>notificationsSent := notificationsSent results + 1\<rparr>;
                  sub1 = addNotification now status_changes email_method sent (Some messageId) None sub
              in case save_error env sub1 of
                   Some msg \<Rightarrow> (record_error (email sub) msg r1, sub1)
                 | None \<Rightarrow>
                     (r1\<lparr>details := details r1 @
                           [\<lparr>d_email = email sub, d_status = ''sent'', d_message = None,
                             d_messageId = Some messageId, d_error = None\<rparr>]\<rparr>, sub1))
         | NotificationNotSent err \<Rightarrow>
             (let r1 = results\<lparr>notificationsFailed := notificationsFailed results + 1\<rparr>;
                  sub1 = addNotification now status_changes email_method failed None (Some err) sub
              in case save_error env sub1 of
                   Some msg \<Rightarrow> (record_error (email sub) msg r1, sub1)
                 | None \<Rightarrow>
                     (r1\<lparr>details := details r1 @
                           [\<lparr>d_email = email sub, d_status = ''failed'', d_message = None,
                             d_messageId = None, d_error = Some err\<rparr>]\<rparr>, sub1))))"

fun process_subscriptions ::
  "service \<Rightarrow> dispatch_env \<Rightarrow> int \<Rightarrow> flight \<Rightarrow> flight_status \<Rightarrow> subscription list \<Rightarrow> batch_results \<Rightarrow>
   batch_results \<times> subscription list" where
  "process_subscriptions svc env now flight oldStatus [] results = (results, [])"
| "process_subscriptions svc env now flight oldStatus (sub # subs) results =
     (case process_subscription svc env now flight oldStatus sub results of
        (r1, sub1) \<Rightarrow>
          (case process_subscriptions svc env now flight oldStatus subs r1 of
             (r2, subs1) \<Rightarrow> (r2, sub1 # subs1)))"

text \<open>
  \<^verbatim>\<open>notifyStatusChange\<close>. \<open>notifyStatusChange_try\<close> is the \<^verbatim>\<open>try\<close> block: \<open>Inl\<close> is an error
  thrown in it (the query rejecting), \<open>Inr\<close> a value returned. \<open>notifyStatusChange\<close> adds
  the outer \<^verbatim>\<open>catch\<close>, which returns a failure object. The result comes with the service
  state after the call and the subscription documents as the loop left them.
\<close>

definition notifyStatusChange_try ::
  "service \<Rightarrow> dispatch_env \<Rightarrow> int \<Rightarrow> flight \<Rightarrow> flight_status \<Rightarrow>
   (string + dispatch_result) \<times> subscription list" where
  "notifyStatusChange_try svc env now flight oldStatus =
     (if \<not> isEnabled svc then (Inr ServiceDisabled, [])
      else
        (case find_subscriptions env of
           Inl msg \<Rightarrow> (Inl msg, [])
         | Inr subscriptions \<Rightarrow>
             if length subscriptions = 0 then (Inr NoSubscriptionsFound, subscriptions)
             else
               (case process_subscriptions svc env now flight oldStatus subscriptions
                       \<lparr>success = True, notificationsSent = 0, notificationsFailed = 0, details = []\<rparr> of
                  (results, subs1) \<Rightarrow> (Inr (Batch results), subs1))))"

definition notifyStatusChange ::
  "service \<Rightarrow> dispatch_env \<Rightarrow> int \<Rightarrow> flight \<Rightarrow> flight_status \<Rightarrow>
   (string + dispatch_result) \<times> service \<times> subscription list" where
  "notifyStatusChange svc env now flight oldStatus =
     (case notifyStatusChange_try svc env now flight oldStatus of
        (Inl msg, subs) \<Rightarrow> (Inr (DispatchFailed msg), svc, subs)
      | (Inr r, subs) \<Rightarrow> (Inr r, svc, subs))"

text \<open>
  \<^verbatim>\<open>retryFailedNotification\<close>. The state records each wait (the argument of
  \<^verbatim>\<open>setTimeout\<close>) and counts the \<^verbatim>\<open>sendEmail\<close> calls; \<open>send k\<close> is what the call made
  after \<open>k\<close> earlier ones does: return \<^verbatim>\<open>{success: true, messageId}\<close>, return an object
  whose \<^verbatim>\<open>success\<close> is false, or throw. \<^verbatim>\<open>retryAttempts\<close> and \<^verbatim>\<open>attempt\<close> are integers.
\<close>

datatype send_outcome = SendOk string | SendNotOk | SendThrows string

datatype retry_result = RetrySucceeded string | RetryFailed string

record retry_state =
  waits :: "int list"
  sends :: nat

function retryFailedNotification ::
  "service_config \<Rightarrow> (nat \<Rightarrow> send_outcome) \<Rightarrow> int \<Rightarrow> retry_state \<Rightarrow> retry_result \<times> retry_state" where
  "retryFailedNotification cfg send attempt st =
     (if attempt > retryAttempts cfg
      then (RetryFailed ''Max retry attempts reached'', st)
      else
        (case send (sends st) of
           SendOk messageId \<Rightarrow>
             (RetrySucceeded messageId,
              \<lparr>waits = waits st @ [retryDelay cfg * attempt], sends = Suc (sends st)\<rparr>)
         | SendNotOk \<Rightarrow>
             retryFailedNotification cfg send (attempt + 1)
               \<lparr>waits = waits st @ [retryDelay cfg * attempt], sends = Suc (sends st)\<rparr>
         | SendThrows msg \<Rightarrow>
             if attempt < retryAttempts cfg
             then retryFailedNotification cfg send (attempt + 1)
                    \<lparr>waits = waits st @ [retryDelay cfg * attempt], sends = Suc (sends st)\<rparr>
             else (RetryFailed msg,
                   \<lparr>waits = waits st @ [retryDelay cfg * attempt], sends = Suc (sends st)\<rparr>)))"
  by pat_completeness auto
termination
  by (relation "measure (\<lambda>(cfg, send, attempt, st). nat (retryAttempts cfg + 1 - attempt))") auto

declare retryFailedNotification.simps [simp del]

text \<open>
  The service of the examples: at most one notification per hour, an empty rate-limit store.
  Its collaborators find the example subscription, deliver every message and save every
  document.
\<close>

definition example_service :: service where
  "example_service =
     \<lparr>config = \<lparr>retryAttempts = 3, retryDelay = 1000, maxPerHour = 1, maxPerDay = 1000\<rparr>,
      rateLimitStore = (\<lambda>k. None),
      isEnabled = True\<rparr>"

definition example_env :: "subscription list \<Rightarrow> dispatch_env" where
  "example_env subs =
     \<lparr>find_subscriptions = Inr subs,
      deliver = (\<lambda>sub. Inr ''console-1''),
      save_error = (\<lambda>sub. None)\<rparr>"

text \<open>Collaborators whose subscription query rejects.\<close>

definition failing_env :: dispatch_env where
  "failing_env =
     \<lparr>find_subscriptions = Inl ''connection closed'',
      deliver = (\<lambda>sub. Inr ''console-1''),
      save_error = (\<lambda>sub. None)\<rparr>"

text \<open>
  A second subscriber of the same flight, and collaborators that find the subscriptions
  given, deliver every message, and cannot save the first subscriber's document.
\<close>

definition second_subscription :: subscription where
  "second_subscription = example_subscription\<lparr>email := ''passenger2@example.com''\<rparr>"

definition save_failing_env :: "subscription list \<Rightarrow> dispatch_env" where
  "save_failing_env subs =
     \<lparr>find_subscriptions = Inr subs,
      deliver = (\<lambda>sub. Inr ''console-1''),
      save_error = (\<lambda>sub. if email sub = ''passenger@example.com''
                            then Some ''write failed'' else None)\<rparr>"

section \<open>Properties of the flight status machine\<close>

lemma validateStatusTransition_table:
  "validateStatusTransition c r \<longleftrightarrow>
     (c, r) \<in> {(Scheduled, Delayed), (Scheduled, Boarding), (Scheduled, Cancelled),
               (Delayed, Boarding), (Delayed, Cancelled),
               (Boarding, Departed), (Boarding, Cancelled),
               (Departed, InAir), (Departed, Diverted),
               (InAir, Arrived), (InAir, Diverted),
               (Diverted, Arrived)}"
  by (cases c; cases r; simp add: validateStatusTransition_def)

text \<open>
  C1 (as amended). For every stored flight and every requested status that differs from the
  flight's current status: if the pair (current, requested) is not in the allowed-transition
  table, \<^verbatim>\<open>updateFlightStatus\<close> throws \<^verbatim>\<open>FlightStatusError\<close> carrying the current status,
  the requested status and the allowed set of the current status, and the stored flight
  (status, history and delay included) is unchanged.
\<close>

theorem updateFlightStatus_invalid_transition:
  assumes "status_current flight = cur"
    and "requested \<noteq> cur"
    and "(cur, requested) \<notin>
           {(Scheduled, Delayed), (Scheduled, Boarding), (Scheduled, Cancelled),
            (Delayed, Boarding), (Delayed, Cancelled),
            (Boarding, Departed), (Boarding, Cancelled),
            (Departed, InAir), (Departed, Diverted),
            (InAir, Arrived), (InAir, Diverted),
            (Diverted, Arrived)}"
    and "ud_status updateData = Some requested"
  shows "updateFlightStatus now (Some flight) flightNo updateData updatedBy =
           (Inl (FlightStatusError cur requested (statusTransitions cur)), Some flight)"
proof -
  have "\<not> validateStatusTransition cur requested"
    using assms(3) by (simp only: validateStatusTransition_table not_False_eq_True)
  then show ?thesis
    using assms(1,2,4) by (simp add: updateFlightStatus_def)
qed

theorem updateFlightStatus_invalid_transition_witness:
  "updateFlightStatus 1000 (Some example_flight) ''AA123''
       (example_update\<lparr>ud_status := Some Arrived\<rparr>) ''System'' =
     (Inl (FlightStatusError Scheduled Arrived [Delayed, Boarding, Cancelled]), Some example_flight)"
  using updateFlightStatus_invalid_transition
          [of example_flight Scheduled Arrived "example_update\<lparr>ud_status := Some Arrived\<rparr>"
              1000 "''AA123''" "''System''"]
  by (simp add: example_flight_def example_update_def)

text \<open>
  C1 as stated fails when the requested status is the current one: the pair
  (Scheduled, Scheduled) is not in the table, yet no error is thrown, and the other fields
  of the update (here the delay) are written.
\<close>

theorem updateFlightStatus_same_status_counterexample:
  "(Scheduled, Scheduled) \<notin>
      {(Scheduled, Delayed), (Scheduled, Boarding), (Scheduled, Cancelled),
       (Delayed, Boarding), (Delayed, Cancelled),
       (Boarding, Departed), (Boarding, Cancelled),
       (Departed, InAir), (Departed, Diverted),
       (InAir, Arrived), (InAir, Diverted),
       (Diverted, Arrived)}
   \<and> status_current example_flight = Scheduled
   \<and> updateFlightStatus 1000 (Some example_flight) ''AA123''
        (example_update\<lparr>ud_status := Some Scheduled, ud_delay_minutes := Some 45\<rparr>) ''System'' =
      (Inr (example_flight\<lparr>delay_minutes := 45, lastUpdated := 1000\<rparr>),
       Some (example_flight\<lparr>delay_minutes := 45, lastUpdated := 1000\<rparr>))"
  by (simp add: example_flight_def example_update_def updateFlightStatus_def Let_def
        has_update_fields_def apply_update_fields_def set_if_given_def truthy_string_def)

text \<open>
  C2. \<^verbatim>\<open>calculateDelay\<close> never leaves a negative \<^verbatim>\<open>delay.minutes\<close>, whatever dates are set
  and whatever the clock reads; and for a flight with a scheduled departure \<open>s\<close> the value is
  the clamped difference in whole minutes, taken from the actual departure if one is
  recorded, else from the estimated departure if one is recorded, else from the clock when
  it is past \<open>s\<close>, else 0.
\<close>

theorem calculateDelay_priority_nonneg:
  "0 \<le> delay_minutes (calculateDelay now f) \<and>
   (departure_scheduled f = Some s \<longrightarrow>
      delay_minutes (calculateDelay now f) =
        max 0 (case departure_actual f of
                 Some a \<Rightarrow> (a - s) div 60000
               | None \<Rightarrow>
                  (case departure_estimated f of
                     Some e \<Rightarrow> (e - s) div 60000
                   | None \<Rightarrow> if s < now then (now - s) div 60000 else 0)))"
  by (auto simp add: calculateDelay_def Let_def split: option.splits)

theorem calculateDelay_priority_nonneg_witness:
  "delay_minutes (calculateDelay 99999999 (example_flight\<lparr>departure_actual := Some 30600000\<rparr>)) = 30
   \<and> delay_minutes (calculateDelay 99999999
        (example_flight\<lparr>departure_estimated := Some 28000000\<rparr>)) = 0"
  using calculateDelay_priority_nonneg
          [of 99999999 "example_flight\<lparr>departure_actual := Some 30600000\<rparr>" 28800000]
        calculateDelay_priority_nonneg
          [of 99999999 "example_flight\<lparr>departure_estimated := Some 28000000\<rparr>" 28800000]
  by (simp add: example_flight_def)

section \<open>Properties of the subscription lifecycle\<close>

text \<open>
  C5. For every subscription whose notification history has at most 100 entries, the history
  after \<^verbatim>\<open>addNotification\<close> has at most 100 entries. If appending the record makes the
  length exceed 100, exactly 50 entries remain, and they are the last 50 of the appended
  history in their order (the 51 oldest are dropped); otherwise the history is the old one
  with the record appended.
\<close>

theorem addNotification_history_bound:
  assumes "length (notificationHistory (notificationStats s)) \<le> 100"
  shows "length (notificationHistory (notificationStats (addNotification now ty m st mid err s))) \<le> 100
     \<and> (100 < length (notificationHistory (notificationStats s) @
                [\<lparr>nr_type = ty, nr_method = m, nr_status = st, nr_messageId = mid, nr_error = err\<rparr>])
         \<longrightarrow> length (notificationHistory (notificationStats (addNotification now ty m st mid err s))) = 50
           \<and> notificationHistory (notificationStats (addNotification now ty m st mid err s)) =
               drop 51 (notificationHistory (notificationStats s) @
                [\<lparr>nr_type = ty, nr_method = m, nr_status = st, nr_messageId = mid, nr_error = err\<rparr>]))
     \<and> (length (notificationHistory (notificationStats s) @
                [\<lparr>nr_type = ty, nr_method = m, nr_status = st, nr_messageId = mid, nr_error = err\<rparr>]) \<le> 100
         \<longrightarrow> notificationHistory (notificationStats (addNotification now ty m st mid err s)) =
               notificationHistory (notificationStats s) @
                [\<lparr>nr_type = ty, nr_method = m, nr_status = st, nr_messageId = mid, nr_error = err\<rparr>])"
proof (cases "length (notificationHistory (notificationStats s)) = 100")
  case True
  then show ?thesis
    by (cases m) (simp_all add: addNotification_def Let_def)
next
  case False
  with assms have "length (notificationHistory (notificationStats s)) < 100"
    by simp
  then show ?thesis
    by (cases m) (simp_all add: addNotification_def Let_def)
qed

theorem addNotification_history_bound_witness:
  "length (notificationHistory (notificationStats full_history_subscription)) = 100
   \<and> notificationHistory (notificationStats
        (addNotification 5 status_changes email_method sent (Some ''m1'') None full_history_subscription)) =
      replicate 49 \<lparr>nr_type = delays, nr_method = sms_method, nr_status = delivered,
                          nr_messageId = None, nr_error = None\<rparr> @
      [\<lparr>nr_type = status_changes, nr_method = email_method, nr_status = sent,
        nr_messageId = Some ''m1'', nr_error = None\<rparr>]"
  using addNotification_history_bound
          [of full_history_subscription 5 status_changes email_method sent "Some ''m1''" None]
  by (simp add: full_history_subscription_def example_subscription_def)










text \<open>
  C7. In the pre-save hook, a subscription whose \<^verbatim>\<open>expiresAt\<close> is set keeps an expiry, and
  the new one is never later than the old one. It differs from the old one only when the
  retention days or the consent date were modified, both are present, and the new value is
  \<open>gdprExpiry = consentDate + dataRetentionDays * 24h\<close>, strictly earlier than the old
  expiry. For a saved document without \<^verbatim>\<open>expiresAt\<close> whose retention inputs were modified
  and are present (retention not 0), \<open>gdprExpiry\<close> is adopted.
\<close>

theorem pre_save_expiry_only_tightens:
  "(expiresAt s = Some e \<longrightarrow>
      (\<exists>e'. expiresAt (pre_save now tok1 tok2 modRetention modConsent s) = Some e' \<and> e' \<le> e
          \<and> (e' \<noteq> e \<longrightarrow>
               (modRetention \<or> modConsent) \<and>
               (\<exists>days consent. dataRetentionDays (gdprCompliance s) = Some days
                   \<and> consentDate (gdprCompliance s) = Some consent
                   \<and> e' = consent + days * 24 * 60 * 60 * 1000 \<and> e' < e))))
   \<and> (expiresAt s = None \<and> \<not> isNew s \<and> (modRetention \<or> modConsent)
        \<and> dataRetentionDays (gdprCompliance s) = Some days \<and> days \<noteq> 0
        \<and> consentDate (gdprCompliance s) = Some consent \<longrightarrow>
      expiresAt (pre_save now tok1 tok2 modRetention modConsent s) =
        Some (consent + days * 24 * 60 * 60 * 1000))"
  by (auto simp add: pre_save_def Let_def split: option.splits)

theorem pre_save_expiry_only_tightens_witness:
  "expiresAt (pre_save 1000 ''a'' ''b'' True False
       (example_subscription\<lparr>gdprCompliance := \<lparr>consentDate = Some 0, dataRetentionDays = Some 10\<rparr>\<rparr>)) =
     Some 864000000
   \<and> expiresAt (pre_save 2000 ''a'' ''b'' True False
       (example_subscription\<lparr>gdprCompliance := \<lparr>consentDate = Some 0, dataRetentionDays = Some 3650\<rparr>,
                              expiresAt := Some 864000000\<rparr>)) =
     Some 864000000
   \<and> expiresAt (pre_save 3000 ''a'' ''b'' False True
       (example_subscription\<lparr>gdprCompliance := \<lparr>consentDate = Some 500, dataRetentionDays = Some 1\<rparr>,
                              expiresAt := None\<rparr>)) =
     Some 86400500"
  using pre_save_expiry_only_tightens
          [of "example_subscription\<lparr>gdprCompliance := \<lparr>consentDate = Some 0, dataRetentionDays = Some 10\<rparr>\<rparr>"
              2332800000 1000 "''a''" "''b''" True False]
        pre_save_expiry_only_tightens
          [of "example_subscription\<lparr>gdprCompliance := \<lparr>consentDate = Some 0, dataRetentionDays = Some 3650\<rparr>,
                              expiresAt := Some 864000000\<rparr>"
              864000000 2000 "''a''" "''b''" True False]
        pre_save_expiry_only_tightens
          [of "example_subscription\<lparr>gdprCompliance := \<lparr>consentDate = Some 500, dataRetentionDays = Some 1\<rparr>,
                              expiresAt := None\<rparr>"
              0 3000 "''a''" "''b''" False True 1 500]
  by (simp add: example_subscription_def pre_save_def truthy_string_def)

lemma pre_save_unsubscribe_fields:
  "isUnsubscribed (unsubscribe (pre_save now t1 t2 mr mc s)) = isUnsubscribed (unsubscribe s)
   \<and> unsubscribedAt (unsubscribe (pre_save now t1 t2 mr mc s)) = unsubscribedAt (unsubscribe s)
   \<and> unsubscribe_reason (unsubscribe (pre_save now t1 t2 mr mc s)) = unsubscribe_reason (unsubscribe s)
   \<and> unsubscribe_feedback (unsubscribe (pre_save now t1 t2 mr mc s)) = unsubscribe_feedback (unsubscribe s)
   \<and> status (pre_save now t1 t2 mr mc s) = status s
   \<and> isActive (pre_save now t1 t2 mr mc s) = isActive s"
  by (simp add: pre_save_def Let_def split: option.splits)

lemma pre_save_saved_unmodified:
  "\<not> isNew s \<Longrightarrow> pre_save now t1 t2 False False s = s"
  by (simp add: pre_save_def Let_def)

text \<open>
  C10 (as amended). \<^verbatim>\<open>unsubscribeUser\<close> called without a token succeeds for every
  subscription that is not already unsubscribed, whenever the save that ends it is accepted:
  the trimmed reason is one of the six values of the schema, the trimmed feedback has at
  most 500 characters, no other path is invalid and the write succeeds. The function has no
  parameter for the caller. On success \<^verbatim>\<open>isUnsubscribed\<close> is set, the time and the trimmed
  reason and feedback are recorded, the status is \<^verbatim>\<open>unsubscribed\<close> and \<^verbatim>\<open>isActive\<close> is
  false; on a saved document with no pending change of the retention inputs nothing else
  changes. The token is compared only when one is supplied: a non-empty token that differs
  from the stored one is refused.
\<close>

theorem unsubscribeUser_without_token:
  "(\<not> isUnsubscribed (unsubscribe s) \<and> js_trim reason \<in> set unsubscribe_reasons
      \<and> length (js_trim feedback) \<le> 500
      \<and> other_invalid_paths env = [] \<and> write_error env = None \<longrightarrow>
      fst (unsubscribeUser env now None reason feedback s) = Inr ()
      \<and> isUnsubscribed (unsubscribe (snd (unsubscribeUser env now None reason feedback s)))
      \<and> unsubscribedAt (unsubscribe (snd (unsubscribeUser env now None reason feedback s))) = Some now
      \<and> unsubscribe_reason (unsubscribe (snd (unsubscribeUser env now None reason feedback s))) =
          Some (js_trim reason)
      \<and> unsubscribe_feedback (unsubscribe (snd (unsubscribeUser env now None reason feedback s))) =
          Some (js_trim feedback)
      \<and> status (snd (unsubscribeUser env now None reason feedback s)) = unsubscribed
      \<and> \<not> isActive (snd (unsubscribeUser env now None reason feedback s))
      \<and> (\<not> isNew s \<and> \<not> retention_modified env \<and> \<not> consent_modified env \<longrightarrow>
           snd (unsubscribeUser env now None reason feedback s) =
             s\<lparr>unsubscribe := (unsubscribe s)
                  \<lparr>isUnsubscribed := True, unsubscribedAt := Some now,
                   unsubscribe_reason := Some (js_trim reason),
                   unsubscribe_feedback := Some (js_trim feedback)\<rparr>,
               status := unsubscribed,
               isActive := False\<rparr>))
   \<and> (\<not> isUnsubscribed (unsubscribe s) \<and> t \<noteq> [] \<and> unsubscribe_token (unsubscribe s) \<noteq> Some t \<longrightarrow>
      unsubscribeUser env now (Some t) reason feedback s = (Inl (Error ''Invalid unsubscribe token''), s))"
proof -
  let ?s1 = "s\<lparr>unsubscribe := (unsubscribe s)
                  \<lparr>isUnsubscribed := True, unsubscribedAt := Some now,
                   unsubscribe_reason := Some (js_trim reason),
                   unsubscribe_feedback := Some (js_trim feedback)\<rparr>,
               status := unsubscribed,
               isActive := False\<rparr>"
  let ?p = "pre_save now (fresh_verification_token env) (fresh_unsubscribe_token env)
                    (retention_modified env) (consent_modified env) ?s1"
  have run: "\<not> isUnsubscribed (unsubscribe s) \<Longrightarrow> js_trim reason \<in> set unsubscribe_reasons \<Longrightarrow>
      length (js_trim feedback) \<le> 500 \<Longrightarrow> other_invalid_paths env = [] \<Longrightarrow> write_error env = None \<Longrightarrow>
      unsubscribeUser env now None reason feedback s = (Inr (), ?p\<lparr>isNew := False\<rparr>)"
    by (simp add: unsubscribeUser_def save_def invalid_unsubscribe_paths_def truthy_string_def Let_def)
  have fields: "isUnsubscribed (unsubscribe ?p) \<and> unsubscribedAt (unsubscribe ?p) = Some now
      \<and> unsubscribe_reason (unsubscribe ?p) = Some (js_trim reason)
      \<and> unsubscribe_feedback (unsubscribe ?p) = Some (js_trim feedback)
      \<and> status ?p = unsubscribed \<and> \<not> isActive ?p"
    using pre_save_unsubscribe_fields [of now "fresh_verification_token env" "fresh_unsubscribe_token env"
        "retention_modified env" "consent_modified env" ?s1]
    by simp
  have same: "\<not> isNew s \<Longrightarrow> \<not> retention_modified env \<Longrightarrow> \<not> consent_modified env \<Longrightarrow>
      ?p\<lparr>isNew := False\<rparr> = ?s1"
    using pre_save_saved_unmodified [of ?s1 now "fresh_verification_token env" "fresh_unsubscribe_token env"]
    by simp
  have tok: "\<not> isUnsubscribed (unsubscribe s) \<and> t \<noteq> [] \<and> unsubscribe_token (unsubscribe s) \<noteq> Some t \<longrightarrow>
      unsubscribeUser env now (Some t) reason feedback s = (Inl (Error ''Invalid unsubscribe token''), s)"
    by (simp add: unsubscribeUser_def truthy_string_def)
  show ?thesis
    using run fields same tok by simp
qed

theorem unsubscribeUser_without_token_witness:
  "fst (unsubscribeUser example_save_env 5000 None ''admin_action'' ''  Compliance requirement ''
          example_subscription) = Inr ()
   \<and> snd (unsubscribeUser example_save_env 5000 None ''admin_action'' ''  Compliance requirement ''
          example_subscription) =
      example_subscription
        \<lparr>unsubscribe := \<lparr>unsubscribe_token = Some ''utok'', isUnsubscribed = True,
                         unsubscribedAt = Some 5000, unsubscribe_reason = Some ''admin_action'',
                         unsubscribe_feedback = Some ''Compliance requirement''\<rparr>,
         status := unsubscribed, isActive := False\<rparr>
   \<and> unsubscribeUser example_save_env 5000 (Some ''guess'') ''admin_action''
        ''  Compliance requirement '' example_subscription =
       (Inl (Error ''Invalid unsubscribe token''), example_subscription)"
proof -
  have r: "js_trim ''admin_action'' = ''admin_action''"
    by (simp add: js_trim_def is_js_whitespace_def)
  have f: "js_trim ''  Compliance requirement '' = ''Compliance requirement''"
    by (simp add: js_trim_def is_js_whitespace_def)
  have pre: "\<not> isUnsubscribed (unsubscribe example_subscription)
      \<and> js_trim ''admin_action'' \<in> set unsubscribe_reasons
      \<and> length (js_trim ''  Compliance requirement '') \<le> 500
      \<and> other_invalid_paths example_save_env = [] \<and> write_error example_save_env = None"
    by (simp add: r f unsubscribe_reasons_def example_save_env_def example_subscription_def)
  have saved: "\<not> isNew example_subscription \<and> \<not> retention_modified example_save_env
      \<and> \<not> consent_modified example_save_env"
    by (simp add: example_save_env_def example_subscription_def)
  have e: "\<not> isUnsubscribed (unsubscribe example_subscription) \<and> ''guess'' \<noteq> []
      \<and> unsubscribe_token (unsubscribe example_subscription) \<noteq> Some ''guess''"
    by (simp add: example_subscription_def)
  note T = unsubscribeUser_without_token
          [where s = example_subscription and t = "''guess''" and now = 5000 and env = example_save_env
             and reason = "''admin_action''" and feedback = "''  Compliance requirement ''"]
  from T pre have ok:
    "fst (unsubscribeUser example_save_env 5000 None ''admin_action'' ''  Compliance requirement ''
          example_subscription) = Inr ()"
    by blast
  from T pre saved have doc:
    "snd (unsubscribeUser example_save_env 5000 None ''admin_action'' ''  Compliance requirement ''
          example_subscription) =
     example_subscription\<lparr>unsubscribe := (unsubscribe example_subscription)
                  \<lparr>isUnsubscribed := True, unsubscribedAt := Some 5000,
                   unsubscribe_reason := Some (js_trim ''admin_action''),
                   unsubscribe_feedback := Some (js_trim ''  Compliance requirement '')\<rparr>,
               status := unsubscribed,
               isActive := False\<rparr>"
    by blast
  from T e have bad:
    "unsubscribeUser example_save_env 5000 (Some ''guess'') ''admin_action''
        ''  Compliance requirement '' example_subscription =
       (Inl (Error ''Invalid unsubscribe token''), example_subscription)"
    by blast
  have lit: "example_subscription\<lparr>unsubscribe := (unsubscribe example_subscription)
                  \<lparr>isUnsubscribed := True, unsubscribedAt := Some 5000,
                   unsubscribe_reason := Some (js_trim ''admin_action''),
                   unsubscribe_feedback := Some (js_trim ''  Compliance requirement '')\<rparr>,
               status := unsubscribed,
               isActive := False\<rparr> =
      example_subscription
        \<lparr>unsubscribe := \<lparr>unsubscribe_token = Some ''utok'', isUnsubscribed = True,
                         unsubscribedAt = Some 5000, unsubscribe_reason = Some ''admin_action'',
                         unsubscribe_feedback = Some ''Compliance requirement''\<rparr>,
         status := unsubscribed, isActive := False\<rparr>"
    by (simp add: r f example_subscription_def)
  show ?thesis
    using ok doc bad lit by (simp only: simp_thms)
qed

text \<open>
  C10 as stated fails when the save is refused: without a token, on a subscription that is
  not unsubscribed, a reason outside the schema's values and a feedback of 501 characters
  are rejected by validation, and a failed write rejects too.
\<close>

theorem unsubscribeUser_invalid_reason_counterexample:
  "\<not> isUnsubscribed (unsubscribe example_subscription)
   \<and> fst (unsubscribeUser example_save_env 5000 None ''no_longer_flying'' [] example_subscription) =
       Inl (ValidationError [''unsubscribe.reason''])
   \<and> fst (unsubscribeUser example_save_env 5000 None ''user_request'' (replicate 501 CHR ''a'')
            example_subscription) =
       Inl (ValidationError [''unsubscribe.feedback''])
   \<and> fst (unsubscribeUser (example_save_env\<lparr>write_error := Some ''connection lost''\<rparr>) 5000 None
            ''user_request'' [] example_subscription) =
       Inl (WriteError ''connection lost'')"
proof -
  have n: "\<not> isUnsubscribed (unsubscribe example_subscription)"
    by (simp add: example_subscription_def)
  have r1: "js_trim ''no_longer_flying'' = ''no_longer_flying''"
    by (simp add: js_trim_def is_js_whitespace_def)
  have r2: "js_trim ''user_request'' = ''user_request''"
    by (simp add: js_trim_def is_js_whitespace_def)
  have f0: "js_trim [] = []"
    by (simp add: js_trim_def)
  have f1: "js_trim (replicate 501 CHR ''a'') = replicate 501 CHR ''a''"
    by (simp add: js_trim_def is_js_whitespace_def dropWhile_replicate)
  have a: "fst (unsubscribeUser example_save_env 5000 None ''no_longer_flying'' [] example_subscription) =
       Inl (ValidationError [''unsubscribe.reason''])"
    using n by (simp add: unsubscribeUser_def save_def invalid_unsubscribe_paths_def
        unsubscribe_reasons_def r1 f0 truthy_string_def example_save_env_def Let_def)
  have b: "fst (unsubscribeUser example_save_env 5000 None ''user_request'' (replicate 501 CHR ''a'')
            example_subscription) =
       Inl (ValidationError [''unsubscribe.feedback''])"
    using n by (simp add: unsubscribeUser_def save_def invalid_unsubscribe_paths_def
        unsubscribe_reasons_def r2 f1 truthy_string_def example_save_env_def Let_def)
  have c: "fst (unsubscribeUser (example_save_env\<lparr>write_error := Some ''connection lost''\<rparr>) 5000 None
            ''user_request'' [] example_subscription) =
       Inl (WriteError ''connection lost'')"
    using n by (simp add: unsubscribeUser_def save_def invalid_unsubscribe_paths_def
        unsubscribe_reasons_def r2 f0 truthy_string_def example_save_env_def Let_def)
  show ?thesis using n a b c by simp
qed

section \<open>Properties of the notification dispatcher\<close>

text \<open>
  C3. The claim reads the preference of a transition to Cancelled as
  \<^verbatim>\<open>cancellations.enabled OR status_changes.enabled\<close>. Evaluated on a subscription with
  \<^verbatim>\<open>cancellations.enabled = true\<close> and \<^verbatim>\<open>status_changes.enabled = false\<close>, for the
  transition from Scheduled to Cancelled, \<^verbatim>\<open>shouldNotifyStatusChange\<close> answers false: its
  first statement returns false whenever \<^verbatim>\<open>status_changes.enabled\<close> is false, before the
  disjunctions are reached.
\<close>

theorem shouldNotifyStatusChange_cancellations_only:
  "cancellations_enabled (notificationPreferences
       (example_subscription\<lparr>notificationPreferences :=
          (notificationPreferences example_subscription)\<lparr>status_changes_enabled := False\<rparr>\<rparr>))
   \<and> \<not> shouldNotifyStatusChange
       (example_subscription\<lparr>notificationPreferences :=
          (notificationPreferences example_subscription)\<lparr>status_changes_enabled := False\<rparr>\<rparr>)
       Scheduled Cancelled"
  by (simp add: shouldNotifyStatusChange_def example_subscription_def)

text \<open>
  C4. With \<^verbatim>\<open>maxPerHour = 1\<close> and an empty store, two \<^verbatim>\<open>notifyStatusChange\<close> calls in the
  same clock hour for the one matching subscription: the first sends and leaves the service
  (its rate-limit store included) as it was, and the second sends again, with a detail entry
  of status \<^verbatim>\<open>sent\<close> and a sent count of 1, where the claim expects \<^verbatim>\<open>rate_limited\<close>.
\<close>

theorem notifyStatusChange_second_call_sends_again:
  "maxPerHour (config example_service) = 1
   \<and> hourlyKey ''passenger@example.com'' 1000 = hourlyKey ''passenger@example.com'' 2000
   \<and> notifyStatusChange example_service (example_env [example_subscription]) 1000
        (example_flight\<lparr>status_current := Boarding\<rparr>) Scheduled =
      (Inr (Batch \<lparr>success = True, notificationsSent = 1, notificationsFailed = 0,
                   details = [\<lparr>d_email = ''passenger@example.com'', d_status = ''sent'',
                               d_message = None, d_messageId = Some ''console-1'',
                               d_error = None\<rparr>]\<rparr>),
       example_service,
       [addNotification 1000 status_changes email_method sent (Some ''console-1'') None
          example_subscription])
   \<and> notifyStatusChange example_service
        (example_env [addNotification 1000 status_changes email_method sent (Some ''console-1'') None
                        example_subscription]) 2000
        (example_flight\<lparr>status_current := Departed\<rparr>) Boarding =
      (Inr (Batch \<lparr>success = True, notificationsSent = 1, notificationsFailed = 0,
                   details = [\<lparr>d_email = ''passenger@example.com'', d_status = ''sent'',
                               d_message = None, d_messageId = Some ''console-1'',
                               d_error = None\<rparr>]\<rparr>),
       example_service,
       [addNotification 2000 status_changes email_method sent (Some ''console-1'') None
          (addNotification 1000 status_changes email_method sent (Some ''console-1'') None
             example_subscription)])"
  by (simp add: notifyStatusChange_def notifyStatusChange_try_def process_subscription_def
      shouldNotifyStatusChange_def checkRateLimit_def get_count_def hourlyKey_def dailyKey_def
      sendStatusChangeEmail_def example_env_def example_service_def Let_def
      example_flight_def example_subscription_def addNotification_def)

lemma process_subscription_alone:
  "process_subscription svc env now flight old sub r =
     (r\<lparr>notificationsSent := notificationsSent r +
            notificationsSent (fst (process_subscription svc env now flight old sub initial_results)),
        notificationsFailed := notificationsFailed r +
            notificationsFailed (fst (process_subscription svc env now flight old sub initial_results)),
        details := details r @
            details (fst (process_subscription svc env now flight old sub initial_results))\<rparr>,
      snd (process_subscription svc env now flight old sub initial_results))"
  by (simp add: process_subscription_def record_error_def initial_results_def Let_def
        split: notification_result.splits option.splits)

lemma process_subscriptions_alone:
  "process_subscriptions svc env now flight old subs r =
     (r\<lparr>notificationsSent := notificationsSent r +
            sum_list (map (\<lambda>sub. notificationsSent
               (fst (process_subscription svc env now flight old sub initial_results))) subs),
        notificationsFailed := notificationsFailed r +
            sum_list (map (\<lambda>sub. notificationsFailed
               (fst (process_subscription svc env now flight old sub initial_results))) subs),
        details := details r @
            concat (map (\<lambda>sub. details
               (fst (process_subscription svc env now flight old sub initial_results))) subs)\<rparr>,
      map (\<lambda>sub. snd (process_subscription svc env now flight old sub initial_results)) subs)"
proof (induction subs arbitrary: r)
  case Nil
  then show ?case by simp
next
  case (Cons sub subs)
  show ?case
    by (subst process_subscriptions.simps, subst process_subscription_alone, subst Cons.IH)
       (simp add: add.assoc)
qed

text \<open>
  C8 (as amended). On an enabled service, called with a flight object, a failure of the
  persistence collaborator during \<^verbatim>\<open>notifyStatusChange\<close> is not thrown to the caller. When the subscription query fails, no
  subscription is processed, the service state is unchanged and the call returns the failure
  object \<^verbatim>\<open>{success: false, error: message, notificationsSent: 0, notificationsFailed: 0}\<close>.
  When subscriptions are found, the call returns the batch results, and the batch is not
  aborted by a failure for one of them: every subscription found adds to the counters and
  to the detail entries exactly what it adds when processed alone, after what was recorded
  before it, which is kept. A subscription whose notification record cannot be saved is
  counted in \<^verbatim>\<open>notificationsFailed\<close> and gets one detail entry of status \<^verbatim>\<open>error\<close>.
\<close>

theorem notifyStatusChange_persistence_failure:
  "(isEnabled svc \<and> find_subscriptions env = Inl msg \<longrightarrow>
      notifyStatusChange svc env now flight old = (Inr (DispatchFailed msg), svc, []))
   \<and> (isEnabled svc \<and> find_subscriptions env = Inr subs \<and> subs \<noteq> [] \<longrightarrow>
      notifyStatusChange svc env now flight old =
        (Inr (Batch (fst (process_subscriptions svc env now flight old subs initial_results))), svc,
         snd (process_subscriptions svc env now flight old subs initial_results)))
   \<and> details (fst (process_subscriptions svc env now flight old subs r)) =
       details r @ concat (map (\<lambda>sub. details
          (fst (process_subscription svc env now flight old sub initial_results))) subs)
   \<and> notificationsSent (fst (process_subscriptions svc env now flight old subs r)) =
       notificationsSent r + sum_list (map (\<lambda>sub. notificationsSent
          (fst (process_subscription svc env now flight old sub initial_results))) subs)
   \<and> notificationsFailed (fst (process_subscriptions svc env now flight old subs r)) =
       notificationsFailed r + sum_list (map (\<lambda>sub. notificationsFailed
          (fst (process_subscription svc env now flight old sub initial_results))) subs)
   \<and> snd (process_subscriptions svc env now flight old subs r) =
       map (\<lambda>sub. snd (process_subscription svc env now flight old sub initial_results)) subs
   \<and> (shouldNotifyStatusChange sub old (status_current flight) \<and> checkRateLimit svc now (email sub)
        \<and> deliver env sub = Inr messageId
        \<and> save_error env (addNotification now status_changes email_method sent (Some messageId) None sub)
            = Some err \<longrightarrow>
       fst (process_subscription svc env now flight old sub initial_results) =
         \<lparr>success = True, notificationsSent = 1, notificationsFailed = 1,
          details = [\<lparr>d_email = email sub, d_status = ''error'', d_message = None,
                      d_messageId = None, d_error = Some err\<rparr>]\<rparr>)
   \<and> (shouldNotifyStatusChange sub old (status_current flight) \<and> checkRateLimit svc now (email sub)
        \<and> deliver env sub = Inl failure
        \<and> save_error env (addNotification now status_changes email_method failed None (Some failure) sub)
            = Some err \<longrightarrow>
       fst (process_subscription svc env now flight old sub initial_results) =
         \<lparr>success = True, notificationsSent = 0, notificationsFailed = 2,
          details = [\<lparr>d_email = email sub, d_status = ''error'', d_message = None,
                      d_messageId = None, d_error = Some err\<rparr>]\<rparr>)"
proof -
  have q: "isEnabled svc \<and> find_subscriptions env = Inl msg \<longrightarrow>
      notifyStatusChange svc env now flight old = (Inr (DispatchFailed msg), svc, [])"
    by (simp add: notifyStatusChange_def notifyStatusChange_try_def)
  have b: "isEnabled svc \<and> find_subscriptions env = Inr subs \<and> subs \<noteq> [] \<longrightarrow>
      notifyStatusChange svc env now flight old =
        (Inr (Batch (fst (process_subscriptions svc env now flight old subs initial_results))), svc,
         snd (process_subscriptions svc env now flight old subs initial_results))"
    by (simp add: notifyStatusChange_def notifyStatusChange_try_def initial_results_def
          split: prod.splits)
  have loop: "process_subscriptions svc env now flight old subs r =
     (r\<lparr>notificationsSent := notificationsSent r +
            sum_list (map (\<lambda>sub. notificationsSent
               (fst (process_subscription svc env now flight old sub initial_results))) subs),
        notificationsFailed := notificationsFailed r +
            sum_list (map (\<lambda>sub. notificationsFailed
               (fst (process_subscription svc env now flight old sub initial_results))) subs),
        details := details r @
            concat (map (\<lambda>sub. details
               (fst (process_subscription svc env now flight old sub initial_results))) subs)\<rparr>,
      map (\<lambda>sub. snd (process_subscription svc env now flight old sub initial_results)) subs)"
    by (rule process_subscriptions_alone)
  have s1: "shouldNotifyStatusChange sub old (status_current flight) \<and> checkRateLimit svc now (email sub)
        \<and> deliver env sub = Inr messageId
        \<and> save_error env (addNotification now status_changes email_method sent (Some messageId) None sub)
            = Some err \<longrightarrow>
       fst (process_subscription svc env now flight old sub initial_results) =
         \<lparr>success = True, notificationsSent = 1, notificationsFailed = 1,
          details = [\<lparr>d_email = email sub, d_status = ''error'', d_message = None,
                      d_messageId = None, d_error = Some err\<rparr>]\<rparr>"
    by (simp add: process_subscription_def sendStatusChangeEmail_def record_error_def
          initial_results_def Let_def)
  have s2: "shouldNotifyStatusChange sub old (status_current flight) \<and> checkRateLimit svc now (email sub)
        \<and> deliver env sub = Inl failure
        \<and> save_error env (addNotification now status_changes email_method failed None (Some failure) sub)
            = Some err \<longrightarrow>
       fst (process_subscription svc env now flight old sub initial_results) =
         \<lparr>success = True, notificationsSent = 0, notificationsFailed = 2,
          details = [\<lparr>d_email = email sub, d_status = ''error'', d_message = None,
                      d_messageId = None, d_error = Some err\<rparr>]\<rparr>"
    by (simp add: process_subscription_def sendStatusChangeEmail_def record_error_def
          initial_results_def Let_def)
  show ?thesis
    unfolding loop using q b s1 s2 by simp
qed

theorem notifyStatusChange_persistence_failure_witness:
  "notifyStatusChange example_service (failing_env\<lparr>find_subscriptions := Inl ''timeout''\<rparr>) 5000
        (example_flight\<lparr>status_current := Cancelled\<rparr>) Scheduled =
      (Inr (DispatchFailed ''timeout''), example_service, [])
   \<and> fst (process_subscription example_service (save_failing_env [example_subscription]) 5000
        (example_flight\<lparr>status_current := Cancelled\<rparr>) Scheduled example_subscription
        initial_results) =
      \<lparr>success = True, notificationsSent = 1, notificationsFailed = 1,
       details = [\<lparr>d_email = ''passenger@example.com'', d_status = ''error'', d_message = None,
                   d_messageId = None, d_error = Some ''write failed''\<rparr>]\<rparr>"
proof -
  have h1: "isEnabled example_service
      \<and> find_subscriptions (failing_env\<lparr>find_subscriptions := Inl ''timeout''\<rparr>) = Inl ''timeout''"
    by (simp add: example_service_def)
  have h2: "shouldNotifyStatusChange example_subscription Scheduled
        (status_current (example_flight\<lparr>status_current := Cancelled\<rparr>))
      \<and> checkRateLimit example_service 5000 (email example_subscription)
      \<and> deliver (save_failing_env [example_subscription]) example_subscription = Inr ''console-1''
      \<and> save_error (save_failing_env [example_subscription])
           (addNotification 5000 status_changes email_method sent (Some ''console-1'') None
              example_subscription) = Some ''write failed''"
    by (simp add: shouldNotifyStatusChange_def checkRateLimit_def get_count_def hourlyKey_def
          dailyKey_def save_failing_env_def example_service_def example_subscription_def
          addNotification_def Let_def)
  have e: "email example_subscription = ''passenger@example.com''"
    by (simp add: example_subscription_def)
  from h1 notifyStatusChange_persistence_failure
     [where svc = example_service and env = "failing_env\<lparr>find_subscriptions := Inl ''timeout''\<rparr>"
        and now = 5000 and flight = "example_flight\<lparr>status_current := Cancelled\<rparr>"
        and old = Scheduled and msg = "''timeout''"]
  have a: "notifyStatusChange example_service (failing_env\<lparr>find_subscriptions := Inl ''timeout''\<rparr>) 5000
        (example_flight\<lparr>status_current := Cancelled\<rparr>) Scheduled =
      (Inr (DispatchFailed ''timeout''), example_service, [])"
    by blast
  from h2 notifyStatusChange_persistence_failure
     [where svc = example_service and env = "save_failing_env [example_subscription]"
        and now = 5000 and flight = "example_flight\<lparr>status_current := Cancelled\<rparr>"
        and old = Scheduled and sub = example_subscription and messageId = "''console-1''"
        and err = "''write failed''"]
  have b: "fst (process_subscription example_service (save_failing_env [example_subscription]) 5000
        (example_flight\<lparr>status_current := Cancelled\<rparr>) Scheduled example_subscription
        initial_results) =
      \<lparr>success = True, notificationsSent = 1, notificationsFailed = 1,
       details = [\<lparr>d_email = email example_subscription, d_status = ''error'', d_message = None,
                   d_messageId = None, d_error = Some ''write failed''\<rparr>]\<rparr>"
    by blast
  show ?thesis using a b unfolding e by simp
qed

text \<open>
  C8 as stated fails in both of its cases: a query that rejects gives a returned failure
  object, not a thrown error; and when the save of the first of two subscriptions rejects,
  the second is still processed and sent, and the call returns the batch results.
\<close>

theorem notifyStatusChange_persistence_failure_counterexample:
  "notifyStatusChange example_service failing_env 1000
      (example_flight\<lparr>status_current := Boarding\<rparr>) Scheduled =
     (Inr (DispatchFailed ''connection closed''), example_service, [])
   \<and> fst (notifyStatusChange example_service
            (save_failing_env [example_subscription, second_subscription]) 1000
            (example_flight\<lparr>status_current := Boarding\<rparr>) Scheduled) =
       Inr (Batch \<lparr>success = True, notificationsSent = 2, notificationsFailed = 1,
                   details = [\<lparr>d_email = ''passenger@example.com'', d_status = ''error'',
                               d_message = None, d_messageId = None,
                               d_error = Some ''write failed''\<rparr>,
                              \<lparr>d_email = ''passenger2@example.com'', d_status = ''sent'',
                               d_message = None, d_messageId = Some ''console-1'',
                               d_error = None\<rparr>]\<rparr>)"
proof -
  have a: "notifyStatusChange example_service failing_env 1000
      (example_flight\<lparr>status_current := Boarding\<rparr>) Scheduled =
     (Inr (DispatchFailed ''connection closed''), example_service, [])"
    by (simp add: notifyStatusChange_def notifyStatusChange_try_def failing_env_def
          example_service_def)
  have b: "fst (notifyStatusChange example_service
            (save_failing_env [example_subscription, second_subscription]) 1000
            (example_flight\<lparr>status_current := Boarding\<rparr>) Scheduled) =
       Inr (Batch \<lparr>success = True, notificationsSent = 2, notificationsFailed = 1,
                   details = [\<lparr>d_email = ''passenger@example.com'', d_status = ''error'',
                               d_message = None, d_messageId = None,
                               d_error = Some ''write failed''\<rparr>,
                              \<lparr>d_email = ''passenger2@example.com'', d_status = ''sent'',
                               d_message = None, d_messageId = Some ''console-1'',
                               d_error = None\<rparr>]\<rparr>)"
    by (simp add: notifyStatusChange_def notifyStatusChange_try_def process_subscription_def
      shouldNotifyStatusChange_def checkRateLimit_def get_count_def hourlyKey_def dailyKey_def
      sendStatusChangeEmail_def save_failing_env_def example_service_def Let_def record_error_def
      example_flight_def example_subscription_def second_subscription_def addNotification_def)
  show ?thesis using a b by simp
qed

lemma retry_sends_mono:
  "sends st \<le> sends (snd (retryFailedNotification cfg send attempt st))"
proof (induction cfg send attempt st rule: retryFailedNotification.induct)
  case (1 cfg send attempt st)
  show ?case
    using 1 Suc_leD
    by (subst retryFailedNotification.simps) (fastforce split: send_outcome.splits)
qed

lemma retry_sends_bound:
  "sends (snd (retryFailedNotification cfg send attempt st)) \<le>
     sends st + nat (retryAttempts cfg + 1 - attempt)"
proof (induction cfg send attempt st rule: retryFailedNotification.induct)
  case (1 cfg send attempt st)
  show ?case
  proof (cases "attempt > retryAttempts cfg")
    case True
    then show ?thesis by (simp add: retryFailedNotification.simps [of cfg send attempt st])
  next
    case False
    then have step: "nat (retryAttempts cfg + 1 - attempt) = Suc (nat (retryAttempts cfg + 1 - (attempt + 1)))"
      by simp
    show ?thesis
    proof (cases "send (sends st)")
      case (SendOk m)
      with False show ?thesis
        by (simp add: retryFailedNotification.simps [of cfg send attempt st])
    next
      case SendNotOk
      with False 1(1) [OF False SendNotOk] step show ?thesis
        by (simp add: retryFailedNotification.simps [of cfg send attempt st])
    next
      case (SendThrows msg)
      show ?thesis
      proof (cases "attempt < retryAttempts cfg")
        case True
        with False SendThrows 1(2) [OF False SendThrows True] step show ?thesis
          by (simp add: retryFailedNotification.simps [of cfg send attempt st])
      next
        case lt: False
        with False SendThrows show ?thesis
          by (simp add: retryFailedNotification.simps [of cfg send attempt st])
      qed
    qed
  qed
qed

lemma backoff_shift:
  "d * a # map (\<lambda>k. d * (a + 1 + int k)) [0..<n] = map (\<lambda>k. d * (a + int k)) [0..<Suc n]"
  by (simp add: map_upt_Suc add.assoc del: upt_Suc)

lemma retry_waits:
  "waits (snd (retryFailedNotification cfg send attempt st)) =
     waits st @ map (\<lambda>k. retryDelay cfg * (attempt + int k))
                  [0..<sends (snd (retryFailedNotification cfg send attempt st)) - sends st]"
proof (induction cfg send attempt st rule: retryFailedNotification.induct)
  case (1 cfg send attempt st)
  let ?st2 = "\<lparr>waits = waits st @ [retryDelay cfg * attempt], sends = Suc (sends st)\<rparr>"
  have rec: "waits (snd (retryFailedNotification cfg send (attempt + 1) ?st2)) =
       waits ?st2 @ map (\<lambda>k. retryDelay cfg * (attempt + 1 + int k))
          [0..<sends (snd (retryFailedNotification cfg send (attempt + 1) ?st2)) - sends ?st2]
     \<Longrightarrow> waits (snd (retryFailedNotification cfg send (attempt + 1) ?st2)) =
       waits st @ map (\<lambda>k. retryDelay cfg * (attempt + int k))
          [0..<sends (snd (retryFailedNotification cfg send (attempt + 1) ?st2)) - sends st]"
  proof -
    assume h: "waits (snd (retryFailedNotification cfg send (attempt + 1) ?st2)) =
       waits ?st2 @ map (\<lambda>k. retryDelay cfg * (attempt + 1 + int k))
          [0..<sends (snd (retryFailedNotification cfg send (attempt + 1) ?st2)) - sends ?st2]"
    have "sends ?st2 \<le> sends (snd (retryFailedNotification cfg send (attempt + 1) ?st2))"
      by (rule retry_sends_mono)
    then have "sends (snd (retryFailedNotification cfg send (attempt + 1) ?st2)) - sends st =
        Suc (sends (snd (retryFailedNotification cfg send (attempt + 1) ?st2)) - sends ?st2)"
      by simp
    then show ?thesis
      using h backoff_shift [of "retryDelay cfg" attempt]
      by (simp del: upt_Suc)
  qed
  show ?case
  proof (cases "attempt > retryAttempts cfg")
    case True
    then show ?thesis by (simp add: retryFailedNotification.simps [of cfg send attempt st])
  next
    case False
    show ?thesis
    proof (cases "send (sends st)")
      case (SendOk m)
      with False show ?thesis
        by (simp add: retryFailedNotification.simps [of cfg send attempt st])
    next
      case SendNotOk
      with False rec [OF 1(1) [OF False SendNotOk]] show ?thesis
        by (simp add: retryFailedNotification.simps [of cfg send attempt st])
    next
      case (SendThrows msg)
      show ?thesis
      proof (cases "attempt < retryAttempts cfg")
        case True
        with False SendThrows rec [OF 1(2) [OF False SendThrows True]] show ?thesis
          by (simp add: retryFailedNotification.simps [of cfg send attempt st])
      next
        case lt: False
        with False SendThrows show ?thesis
          by (simp add: retryFailedNotification.simps [of cfg send attempt st])
      qed
    qed
  qed
qed

lemma retry_exhausted_fails:
  "(\<forall>k m. sends st \<le> k \<longrightarrow> send k \<noteq> SendOk m) \<Longrightarrow>
     \<exists>msg. fst (retryFailedNotification cfg send attempt st) = RetryFailed msg"
proof (induction cfg send attempt st rule: retryFailedNotification.induct)
  case (1 cfg send attempt st)
  show ?case
  proof (cases "attempt > retryAttempts cfg")
    case True
    then show ?thesis by (simp add: retryFailedNotification.simps [of cfg send attempt st])
  next
    case False
    show ?thesis
    proof (cases "send (sends st)")
      case (SendOk m)
      with 1(3) show ?thesis by blast
    next
      case SendNotOk
      have "\<exists>msg. fst (retryFailedNotification cfg send (attempt + 1)
               \<lparr>waits = waits st @ [retryDelay cfg * attempt], sends = Suc (sends st)\<rparr>) = RetryFailed msg"
        using 1(3) by (intro 1(1) [OF False SendNotOk]) (simp add: Suc_le_eq less_imp_le)
      with False SendNotOk show ?thesis
        by (simp add: retryFailedNotification.simps [of cfg send attempt st])
    next
      case (SendThrows msg)
      show ?thesis
      proof (cases "attempt < retryAttempts cfg")
        case True
        have "\<exists>msg. fst (retryFailedNotification cfg send (attempt + 1)
               \<lparr>waits = waits st @ [retryDelay cfg * attempt], sends = Suc (sends st)\<rparr>) = RetryFailed msg"
          using 1(3) by (intro 1(2) [OF False SendThrows True]) (simp add: Suc_le_eq less_imp_le)
        with False SendThrows True show ?thesis
          by (simp add: retryFailedNotification.simps [of cfg send attempt st])
      next
        case lt: False
        with False SendThrows show ?thesis
          by (simp add: retryFailedNotification.simps [of cfg send attempt st])
      qed
    qed
  qed
qed

text \<open>
  C9. \<^verbatim>\<open>retryFailedNotification\<close> returns for every input (the function is total: each
  recursive call has a larger \<^verbatim>\<open>attempt\<close>, bounded by \<^verbatim>\<open>retryAttempts\<close>). Started at
  attempt \<open>a\<close> it calls \<^verbatim>\<open>sendEmail\<close> at most \<^verbatim>\<open>retryAttempts + 1 - a\<close> times, that is at
  most \<^verbatim>\<open>retryAttempts\<close> times from the default attempt 1; the call of attempt number \<open>n\<close>
  comes after a wait of \<^verbatim>\<open>retryDelay * n\<close>, and there is no other wait; and when no call
  succeeds, what it returns is a failed result.
\<close>

theorem retryFailedNotification_bounded:
  "sends (snd (retryFailedNotification cfg send attempt st)) - sends st
      \<le> nat (retryAttempts cfg + 1 - attempt)
   \<and> sends st \<le> sends (snd (retryFailedNotification cfg send attempt st))
   \<and> waits (snd (retryFailedNotification cfg send attempt st)) =
       waits st @ map (\<lambda>k. retryDelay cfg * (attempt + int k))
                    [0..<sends (snd (retryFailedNotification cfg send attempt st)) - sends st]
   \<and> ((\<forall>k m. sends st \<le> k \<longrightarrow> send k \<noteq> SendOk m) \<longrightarrow>
        (\<exists>msg. fst (retryFailedNotification cfg send attempt st) = RetryFailed msg))"
proof -
  have "sends (snd (retryFailedNotification cfg send attempt st))
          \<le> sends st + nat (retryAttempts cfg + 1 - attempt)"
    by (rule retry_sends_bound)
  then have a: "sends (snd (retryFailedNotification cfg send attempt st)) - sends st
                  \<le> nat (retryAttempts cfg + 1 - attempt)"
    by simp
  show ?thesis
    using a retry_sends_mono [of st cfg send attempt] retry_waits [of cfg send attempt st]
      retry_exhausted_fails [of st send cfg attempt]
    by blast
qed

theorem retryFailedNotification_bounded_witness:
  "retryFailedNotification (config example_service) (\<lambda>k. SendThrows ''refused'') 1
      \<lparr>waits = [], sends = 0\<rparr> =
     (RetryFailed ''refused'', \<lparr>waits = [1000, 2000, 3000], sends = 3\<rparr>)
   \<and> sends (snd (retryFailedNotification (config example_service) (\<lambda>k. SendThrows ''refused'') 1
      \<lparr>waits = [], sends = 0\<rparr>)) \<le> 3"
proof -
  have never_ok: "\<forall>k m. sends \<lparr>waits = [], sends = 0\<rparr> \<le> k \<longrightarrow>
                    (\<lambda>k. SendThrows ''refused'') k \<noteq> SendOk m"
    by simp
  show ?thesis
    using never_ok retryFailedNotification_bounded
          [of "config example_service" "\<lambda>k. SendThrows ''refused''" 1 "\<lparr>waits = [], sends = 0\<rparr>"]
    by (simp add: retryFailedNotification.simps example_service_def)
qed

end
